theory Spec2Isabelle
  imports Complex_Main
begin

section \<open>Numbers and the display formatters of the dashboard\<close>


fun digit_char :: "nat \<Rightarrow> char" where
  "digit_char n = (''0123456789'' ! (n mod 10))"

fun digits :: "nat \<Rightarrow> string" where
  "digits n = (if n < 10 then [digit_char n] else digits (n div 10) @ [digit_char n])"

declare digits.simps [simp del]

text \<open>
  \<^verbatim>\<open>Number.prototype.toFixed(f)\<close> after its range check on \<open>f\<close>: the sign, then
  the integer \<open>n\<close> closest to \<open>x * 10^f\<close> (the larger one on a tie), written with at
  least one digit before the point and exactly \<open>f\<close> after it.
\<close>

definition fixed :: "(rat \<Rightarrow> string) \<Rightarrow> rat \<Rightarrow> nat \<Rightarrow> string" where
  "fixed numToString x0 f =
     (let sgn = (if x0 < 0 then ''-'' else '''');
          x = \<bar>x0\<bar>
      in if x \<ge> 10 ^ 21 then sgn @ numToString x
         else
           let n = nat \<lfloor>x * 10 ^ f + 1 / 2\<rfloor>;
               m = digits n;
               m' = (if f \<noteq> 0
                     then (let z = (if length m \<le> f then replicate (f + 1 - length m) CHR ''0'' @ m else m);
                               k = length z
                           in take (k - f) z @ ''.'' @ drop (k - f) z)
                     else m)
           in sgn @ m')"







section \<open>The income-flow Sankey chart\<close>

text \<open>
  \<^verbatim>\<open>fmtVal\<close> and \<^verbatim>\<open>fmtPct\<close> of the chart component; \<^verbatim>\<open>toFixed(1)\<close> and
  \<^verbatim>\<open>toFixed(0)\<close> cannot fail their range check.
\<close>

definition fmtVal :: "(rat \<Rightarrow> string) \<Rightarrow> (rat \<Rightarrow> string) \<Rightarrow> rat \<Rightarrow> string" where
  "fmtVal numToString toLocaleString v =
     (let abs = \<bar>v\<bar>
      in if abs \<ge> 10 ^ 12 then ''$'' @ fixed numToString (v / 10 ^ 12) 1 @ ''T''
         else if abs \<ge> 10 ^ 9 then ''$'' @ fixed numToString (v / 10 ^ 9) 1 @ ''B''
         else if abs \<ge> 10 ^ 6 then ''$'' @ fixed numToString (v / 10 ^ 6) 1 @ ''M''
         else if abs \<ge> 10 ^ 3 then ''$'' @ fixed numToString (v / 10 ^ 3) 0 @ ''k''
         else ''$'' @ toLocaleString v)"

definition fmtPct :: "(rat \<Rightarrow> string) \<Rightarrow> rat \<Rightarrow> string" where
  "fmtPct numToString v = fixed numToString (v * 100) 1 @ ''%''"

text \<open>The interface \<^verbatim>\<open>FinancialKPIs\<close> of \<^verbatim>\<open>types.ts\<close>.\<close>

record FinancialKPIs =
  revenue :: "rat option"
  revenue_prior :: "rat option"
  revenue_yoy_change :: "rat option"
  net_income :: "rat option"
  net_income_prior :: "rat option"
  gross_profit :: "rat option"
  gross_margin :: "rat option"
  operating_income :: "rat option"
  operating_margin :: "rat option"
  total_assets :: "rat option"
  total_liabilities :: "rat option"
  stockholders_equity :: "rat option"
  debt_to_equity :: "rat option"
  long_term_debt :: "rat option"
  cash_and_equivalents :: "rat option"
  current_ratio :: "rat option"
  operating_cash_flow :: "rat option"
  free_cash_flow :: "rat option"
  eps_basic :: "rat option"
  fiscal_year :: rat
  period_end :: string
  currency :: string
  source_tags :: "(string \<times> string) list"
  anomalies :: "string list"

text \<open>
  The types of the chart. A field is prefixed with \<open>n_\<close> (node) or \<open>l_\<close> (link),
  since the source's one-letter names \<open>s\<close>, \<open>t\<close>, \<open>v\<close>, \<open>x\<close>, \<open>y\<close> would
  capture the variables of every later statement.
\<close>

datatype NodeType = Rev | Profit | Cost

record NodeDef =
  n_id :: string
  n_label :: string
  n_col :: nat
  n_type :: NodeType
  n_val :: rat

record LinkDef =
  l_s :: string
  l_t :: string
  l_v :: rat

record LayoutNode = NodeDef +
  n_x :: rat
  n_y :: rat
  n_w :: rat
  n_h :: rat
  n_color :: string

record LayoutLink = LinkDef +
  l_sy :: rat
  l_sh :: rat
  l_ty :: rat
  l_th :: rat
  l_path :: string
  l_color :: string
  l_isProfitPath :: bool

fun TYPE_COLOR :: "NodeType \<Rightarrow> string" where
  "TYPE_COLOR Rev = ''var(--revenue)''"
| "TYPE_COLOR Profit = ''var(--profit)''"
| "TYPE_COLOR Cost = ''var(--cost)''"

fun TYPE_LABEL :: "NodeType \<Rightarrow> string" where
  "TYPE_LABEL Rev = ''Revenue''"
| "TYPE_LABEL Profit = ''Profit''"
| "TYPE_LABEL Cost = ''Cost''"

text \<open>
  \<^verbatim>\<open>PROFIT_PATHS\<close> holds the keys \<open>source\<rightarrow>target\<close>; a key is kept here as the
  pair it is built from.
\<close>

definition PROFIT_PATHS :: "(string \<times> string) list" where
  "PROFIT_PATHS =
     [(''revenue'', ''gross_profit''), (''gross_profit'', ''op_income''), (''op_income'', ''net_income'')]"

definition SVG_W :: rat where "SVG_W = 1100"
definition SVG_H :: rat where "SVG_H = 480"
definition PAD_l :: rat where "PAD_l = 130"
definition PAD_r :: rat where "PAD_r = 100"
definition PAD_t :: rat where "PAD_t = 60"
definition PAD_b :: rat where "PAD_b = 28"
definition NODE_W :: rat where "NODE_W = 14"
definition NODE_GAP :: rat where "NODE_GAP = 32"
definition COL_POSITIONS :: "rat list" where "COL_POSITIONS = [0, 3 / 10, 6 / 10, 9 / 10]"

text \<open>\<^verbatim>\<open>a ?? b\<close> on a nullable number.\<close>

fun nullish :: "'a option \<Rightarrow> 'a \<Rightarrow> 'a" where
  "nullish None d = d"
| "nullish (Some a) d = a"

text \<open>
  The nodes of \<^verbatim>\<open>computeLayout\<close> are objects shared between the node map
  \<^verbatim>\<open>nm\<close> and the columns \<^verbatim>\<open>cols\<close>, and positioned by assignment through the
  columns. The model keeps them in a store, the list of nodes in creation order; a
  column is a list of indices into it, and \<^verbatim>\<open>nm\<close> pairs each id with the node at
  the same position.
\<close>

fun placeNodes :: "rat \<Rightarrow> rat \<Rightarrow> rat \<Rightarrow> nat list \<Rightarrow> rat \<Rightarrow> LayoutNode list \<Rightarrow> rat \<times> LayoutNode list" where
  "placeNodes totalVal availH xpos [] y store = (y, store)"
| "placeNodes totalVal availH xpos (i # is) y store =
     (let n = store ! i;
          h = max 24 ((n_val n / totalVal) * availH);
          n' = n\<lparr>n_h := h, n_x := xpos, n_y := y\<rparr>
      in placeNodes totalVal availH xpos is (y + h + NODE_GAP) (store[i := n']))"

definition positionColumn :: "nat \<Rightarrow> nat list \<Rightarrow> LayoutNode list \<Rightarrow> LayoutNode list" where
  "positionColumn ci col store =
     (if length col = 0 then store
      else
        let totalVal = foldl (\<lambda>a i. a + n_val (store ! i)) 0 col;
            availH = SVG_H - PAD_t - PAD_b - (of_nat (length col) - 1) * NODE_GAP;
            xpos = PAD_l + (COL_POSITIONS ! ci) * (SVG_W - PAD_l - PAD_r - NODE_W);
            (y, store1) = placeNodes totalVal availH xpos col PAD_t store;
            totalUsed = y - NODE_GAP - PAD_t;
            offset = (SVG_H - PAD_t - PAD_b - totalUsed) / 2
        in if offset > 0
           then foldl (\<lambda>st i. st[i := (st ! i)\<lparr>n_y := n_y (st ! i) + offset\<rparr>]) store1 col
           else store1)"

text \<open>
  The body of the \<^verbatim>\<open>map\<close> over the links, for a link whose two nodes \<open>sn\<close> and
  \<open>tn\<close> have been read from \<^verbatim>\<open>nm\<close>: the laid-out link and the two offset tables
  as the body leaves them.
\<close>

definition layoutLink ::
  "(rat \<Rightarrow> string) \<Rightarrow> LinkDef list \<Rightarrow> LayoutNode \<Rightarrow> LayoutNode \<Rightarrow> LinkDef \<Rightarrow>
   (string \<rightharpoonup> rat) \<Rightarrow> (string \<rightharpoonup> rat) \<Rightarrow> LayoutLink \<times> (string \<rightharpoonup> rat) \<times> (string \<rightharpoonup> rat)" where
  "layoutLink numToString linkDefs sn tn l sourceOffsets targetOffsets =
     (let so0 = (if nullish (sourceOffsets (l_s l)) 0 = 0 then sourceOffsets(l_s l \<mapsto> 0) else sourceOffsets);
          to0 = (if nullish (targetOffsets (l_t l)) 0 = 0 then targetOffsets(l_t l \<mapsto> 0) else targetOffsets);
          sTotal = foldl (\<lambda>a b. a + l_v b) 0 (filter (\<lambda>x. l_s x = l_s l) linkDefs);
          tTotal = foldl (\<lambda>a b. a + l_v b) 0 (filter (\<lambda>x. l_t x = l_t l) linkDefs);
          sy = n_y sn + nullish (so0 (l_s l)) 0;
          sh = (l_v l / sTotal) * n_h sn;
          so1 = so0(l_s l \<mapsto> nullish (so0 (l_s l)) 0 + sh);
          ty = n_y tn + nullish (to0 (l_t l)) 0;
          th = (l_v l / tTotal) * n_h tn;
          to1 = to0(l_t l \<mapsto> nullish (to0 (l_t l)) 0 + th);
          sx = n_x sn + n_w sn;
          tx = n_x tn;
          mx = (sx + tx) / 2;
          path = ''M'' @ numToString sx @ '','' @ numToString sy
               @ '' C'' @ numToString mx @ '','' @ numToString sy
               @ '' '' @ numToString mx @ '','' @ numToString ty
               @ '' '' @ numToString tx @ '','' @ numToString ty
               @ '' L'' @ numToString tx @ '','' @ numToString (ty + th)
               @ '' C'' @ numToString mx @ '','' @ numToString (ty + th)
               @ '' '' @ numToString mx @ '','' @ numToString (sy + sh)
               @ '' '' @ numToString sx @ '','' @ numToString (sy + sh) @ '' Z'';
          isProfitPath = ((l_s l, l_t l) \<in> set PROFIT_PATHS)
      in (\<lparr>l_s = l_s l, l_t = l_t l, l_v = l_v l, l_sy = sy, l_sh = sh, l_ty = ty, l_th = th,
           l_path = path, l_color = n_color tn, l_isProfitPath = isProfitPath\<rparr>, so1, to1))"

datatype layout_error = TypeError

text \<open>
  The \<^verbatim>\<open>map\<close> itself, threading the offset tables from one link to the next.
  Reading a property of a node that \<^verbatim>\<open>nm\<close> does not hold is a \<^verbatim>\<open>TypeError\<close>.
\<close>

fun mapLinks ::
  "(rat \<Rightarrow> string) \<Rightarrow> (string \<rightharpoonup> LayoutNode) \<Rightarrow> LinkDef list \<Rightarrow> LinkDef list \<Rightarrow>
   (string \<rightharpoonup> rat) \<Rightarrow> (string \<rightharpoonup> rat) \<Rightarrow> layout_error + LayoutLink list" where
  "mapLinks numToString nm linkDefs [] sourceOffsets targetOffsets = Inr []"
| "mapLinks numToString nm linkDefs (l # ls) sourceOffsets targetOffsets =
     (case (nm (l_s l), nm (l_t l)) of
        (Some sn, Some tn) \<Rightarrow>
          (case layoutLink numToString linkDefs sn tn l sourceOffsets targetOffsets of
             (ll, so1, to1) \<Rightarrow>
               (case mapLinks numToString nm linkDefs ls so1 to1 of
                  Inl e \<Rightarrow> Inl e
                | Inr rest \<Rightarrow> Inr (ll # rest)))
      | _ \<Rightarrow> Inl TypeError)"

record layout =
  lo_nm :: "(string \<times> LayoutNode) list"
  lo_cols :: "LayoutNode list list"
  lo_layoutLinks :: "LayoutLink list"
  lo_revenue :: rat
  lo_grossMargin :: rat
  lo_operatingMargin :: rat
  lo_netMargin :: rat

text \<open>
  \<^verbatim>\<open>computeLayout\<close> is given in two parts. \<open>layoutOf\<close> is its second part, from
  the comment \<^verbatim>\<open>// Build node map\<close> to the end, as a function of the node and link
  definitions and the figures that the first part has computed.
\<close>

definition layoutOf ::
  "(rat \<Rightarrow> string) \<Rightarrow> NodeDef list \<Rightarrow> LinkDef list \<Rightarrow> rat \<Rightarrow> rat \<Rightarrow> rat \<Rightarrow> rat \<Rightarrow> layout_error + layout" where
  "layoutOf numToString nodeDefs linkDefs revenue' grossMargin operatingMargin netMargin =
     (let store0 = map (\<lambda>n. \<lparr>n_id = n_id n, n_label = n_label n, n_col = n_col n, n_type = n_type n,
                                n_val = n_val n, n_x = 0, n_y = 0, n_w = NODE_W, n_h = 0,
                                n_color = TYPE_COLOR (n_type n)\<rparr>) nodeDefs;
          colIdx = map (\<lambda>ci. filter (\<lambda>i. n_col (store0 ! i) = ci) [0 ..< length store0]) [0, 1, 2, 3];
          store = foldl (\<lambda>st (ci, col). positionColumn ci col st) store0 (zip [0, 1, 2, 3] colIdx);
          nm = zip (map n_id nodeDefs) store;
          cols = map (map (\<lambda>i. store ! i)) colIdx
      in case mapLinks numToString (map_of nm) linkDefs
                (filter (\<lambda>l. map_of nm (l_s l) \<noteq> None \<and> map_of nm (l_t l) \<noteq> None) linkDefs)
                Map.empty Map.empty of
           Inl e \<Rightarrow> Inl e
         | Inr layoutLinks \<Rightarrow>
             Inr \<lparr>lo_nm = nm, lo_cols = cols, lo_layoutLinks = layoutLinks, lo_revenue = revenue',
                  lo_grossMargin = grossMargin, lo_operatingMargin = operatingMargin,
                  lo_netMargin = netMargin\<rparr>)"

definition computeLayout :: "(rat \<Rightarrow> string) \<Rightarrow> FinancialKPIs \<Rightarrow> layout_error + layout" where
  "computeLayout numToString kpis =
     (let revenue' = nullish (revenue kpis) 0;
          grossProfit = nullish (gross_profit kpis) 0;
          costOfRevenue = max 0 (revenue' - grossProfit);
          operatingIncome = nullish (operating_income kpis) 0;
          operatingExpenses = max 0 (grossProfit - operatingIncome);
          netIncome = nullish (net_income kpis) 0;
          taxAndOther = max 0 (operatingIncome - netIncome);
          grossMargin = nullish (gross_margin kpis) (if revenue' \<noteq> 0 then grossProfit / revenue' else 0);
          operatingMargin = nullish (operating_margin kpis) (if revenue' \<noteq> 0 then operatingIncome / revenue' else 0);
          netMargin = (if revenue' \<noteq> 0 then netIncome / revenue' else 0);
          nodeDefs = filter (\<lambda>n. n_val n > 0)
            [\<lparr>n_id = ''revenue'', n_label = ''Revenue'', n_col = 0, n_type = Rev, n_val = revenue'\<rparr>,
             \<lparr>n_id = ''gross_profit'', n_label = ''Gross Profit'', n_col = 1, n_type = Profit, n_val = grossProfit\<rparr>,
             \<lparr>n_id = ''cogs'', n_label = ''Cost of Revenue'', n_col = 1, n_type = Cost, n_val = costOfRevenue\<rparr>,
             \<lparr>n_id = ''op_income'', n_label = ''Operating Income'', n_col = 2, n_type = Profit, n_val = operatingIncome\<rparr>,
             \<lparr>n_id = ''opex'', n_label = ''Operating Expenses'', n_col = 2, n_type = Cost, n_val = operatingExpenses\<rparr>,
             \<lparr>n_id = ''net_income'', n_label = ''Net Income'', n_col = 3, n_type = Profit, n_val = netIncome\<rparr>,
             \<lparr>n_id = ''tax_other'', n_label = ''Tax & Other'', n_col = 3, n_type = Cost, n_val = taxAndOther\<rparr>];
          linkDefs = filter (\<lambda>l. l_v l > 0)
            [\<lparr>l_s = ''revenue'', l_t = ''gross_profit'', l_v = grossProfit\<rparr>,
             \<lparr>l_s = ''revenue'', l_t = ''cogs'', l_v = costOfRevenue\<rparr>,
             \<lparr>l_s = ''gross_profit'', l_t = ''op_income'', l_v = operatingIncome\<rparr>,
             \<lparr>l_s = ''gross_profit'', l_t = ''opex'', l_v = operatingExpenses\<rparr>,
             \<lparr>l_s = ''op_income'', l_t = ''net_income'', l_v = netIncome\<rparr>,
             \<lparr>l_s = ''op_income'', l_t = ''tax_other'', l_v = taxAndOther\<rparr>]
      in layoutOf numToString nodeDefs linkDefs revenue' grossMargin operatingMargin netMargin)"


text \<open>
  The component \<^verbatim>\<open>IncomeFlowSankey\<close>. Its result is what it renders: the
  placeholder, or the chart. Of the chart the model keeps the layout and every text
  that is computed by a division by \<^verbatim>\<open>revenue\<close>: the percentage under a node,
  the two tooltips and the COGS annotation. A tooltip is kept as its rows, without the
  markup around them. The legend, the column labels and totals and the margin
  annotations (whose figures are part of the layout) divide by nothing and are left out.
\<close>

record nodeTooltip =
  tt_title :: string
  tt_amount :: string
  tt_type :: string
  tt_pctOfRevenue :: string
  tt_inflows :: "(string \<times> string) list"
  tt_outflows :: "(string \<times> string) list"

record linkTooltip =
  lt_title :: "string \<times> string"
  lt_amount :: string
  lt_share :: string

definition nodeTooltipHtml ::
  "(rat \<Rightarrow> string) \<Rightarrow> (rat \<Rightarrow> string) \<Rightarrow> layout \<Rightarrow> rat \<Rightarrow> LayoutNode \<Rightarrow> nodeTooltip" where
  "nodeTooltipHtml numToString toLocaleString L revenue' n =
     (let inflows = filter (\<lambda>l. l_t l = n_id n) (lo_layoutLinks L);
          outflows = filter (\<lambda>l. l_s l = n_id n) (lo_layoutLinks L)
      in \<lparr>tt_title = n_label n,
          tt_amount = fmtVal numToString toLocaleString (n_val n),
          tt_type = TYPE_LABEL (n_type n),
          tt_pctOfRevenue = fmtPct numToString (n_val n / revenue'),
          tt_inflows = map (\<lambda>l. (case map_of (lo_nm L) (l_s l) of Some sn \<Rightarrow> n_label sn | None \<Rightarrow> l_s l,
                                     fmtVal numToString toLocaleString (l_v l))) inflows,
          tt_outflows = map (\<lambda>l. (case map_of (lo_nm L) (l_t l) of Some tn \<Rightarrow> n_label tn | None \<Rightarrow> l_t l,
                                      fmtVal numToString toLocaleString (l_v l))) outflows\<rparr>)"

definition linkTooltipHtml ::
  "(rat \<Rightarrow> string) \<Rightarrow> (rat \<Rightarrow> string) \<Rightarrow> layout \<Rightarrow> rat \<Rightarrow> LayoutLink \<Rightarrow> linkTooltip" where
  "linkTooltipHtml numToString toLocaleString L revenue' link =
     \<lparr>lt_title = (case map_of (lo_nm L) (l_s link) of Some sn \<Rightarrow> n_label sn | None \<Rightarrow> l_s link,
                   case map_of (lo_nm L) (l_t link) of Some tn \<Rightarrow> n_label tn | None \<Rightarrow> l_t link),
      lt_amount = fmtVal numToString toLocaleString (l_v link),
      lt_share = fmtPct numToString (l_v link / revenue')\<rparr>"

record chart =
  ch_layout :: layout
  ch_revenue :: rat
  ch_nodePct :: "(string \<times> string) list"
  ch_nodeTooltips :: "(string \<times> nodeTooltip) list"
  ch_linkTooltips :: "linkTooltip list"
  ch_cogs :: "string option"

datatype view = Placeholder string | Chart chart

text \<open>
  The first component of the result lists the arguments of the calls of
  \<^verbatim>\<open>computeLayout\<close> that the component has made.
\<close>

definition IncomeFlowSankey ::
  "(rat \<Rightarrow> string) \<Rightarrow> (rat \<Rightarrow> string) \<Rightarrow> FinancialKPIs \<Rightarrow> FinancialKPIs list \<times> (layout_error + view)" where
  "IncomeFlowSankey numToString toLocaleString kpis =
     (let revenue' = nullish (revenue kpis) 0
      in if revenue' \<le> 0
         then ([], Inr (Placeholder ''Revenue data not available for income flow chart.''))
         else
           (case computeLayout numToString kpis of
              Inl e \<Rightarrow> ([kpis], Inl e)
            | Inr L \<Rightarrow>
                ([kpis],
                 Inr (Chart
                   \<lparr>ch_layout = L,
                    ch_revenue = revenue',
                    ch_nodePct = map (\<lambda>n. (n_id n, fmtPct numToString (n_val n / revenue')))
                                   (filter (\<lambda>n. n_col n \<ge> 1) (map snd (lo_nm L))),
                    ch_nodeTooltips = map (\<lambda>n. (n_id n, nodeTooltipHtml numToString toLocaleString L revenue' n))
                                        (map snd (lo_nm L)),
                    ch_linkTooltips = map (linkTooltipHtml numToString toLocaleString L revenue') (lo_layoutLinks L),
                    ch_cogs = (case (map_of (lo_nm L) ''revenue'', map_of (lo_nm L) ''cogs'') of
                                 (Some rv, Some cogs) \<Rightarrow>
                                   Some (fmtPct numToString
                                          (if nullish (revenue kpis) 0 > 0
                                           then n_val cogs / nullish (revenue kpis) 1 else 0) @ '' COGS'')
                               | _ \<Rightarrow> None)\<rparr>))))"

text \<open>What positioning leaves untouched in a node: its id, column and value.\<close>

definition core :: "LayoutNode \<Rightarrow> string \<times> nat \<times> rat" where
  "core n = (n_id n, n_col n, n_val n)"

section \<open>Progress events and results in the dashboard\<close>





record CrossWorkstreamFlag =
  cf_rule_name :: string
  cf_severity :: string
  cf_description :: string
  cf_evidence :: "string list"


text \<open>
  \<^verbatim>\<open>getResults\<close> of \<^verbatim>\<open>api.ts\<close>. The network is a parameter: \<open>fetch\<close> maps a
  URL to a response or to the error it rejects with, and a response holds the body as
  \<^verbatim>\<open>res.json()\<close> parses it (\<^term>\<open>None\<close> when the body is not JSON).
\<close>

datatype api_error = HttpError nat | FetchFailed | BodyNotJson












section \<open>The orchestration core\<close>

text \<open>
  The task graph, the scheduler and the correlation engine run on the server, whose
  code is not among the sources; the dashboard above only shows what they produce. They
  are modelled here from the specification, section by section. Concurrency is modelled
  by interleaving: the bookkeeping of the scheduler is single-threaded (\<section>5), so a run
  is a sequence of bookkeeping actions, and the order in which independent tasks
  are launched and complete is any order that the actions allow. Cancellation (\<section>5) is
  not modelled: the runs below are runs that nobody cancels.
\<close>

type_synonym task_name = string



text \<open>
  Modelled from the spec: the status of a task in the Run State (\<section>3), missing from the
  sources.
\<close>

datatype 'v task_status =
    Pending
  | Running
  | is_Succeeded: Succeeded 'v
  | is_Failed: Failed string
  | is_Skipped: Skipped string

text \<open>
  Modelled from the spec: the Run State of \<section>3 (missing from the sources): the subject and
  the status of every task. A name that is not a task of the graph is never written and
  stays Pending. \<open>rs_invoked\<close> is added to the state of the spec to observe the
  scheduler: it lists, in order, the tasks whose \<open>execute\<close> has been invoked.
\<close>

record 'v run_state =
  rs_subject :: string
  rs_outputs :: "task_name \<Rightarrow> 'v task_status"
  rs_invoked :: "task_name list"

























subsection \<open>The correlation engine\<close>

text \<open>
  Modelled from the spec: the severity of a Correlation Finding (\<section>3), an enum with the
  values Low, Medium, High and Critical; the rule table is missing from the sources.
\<close>

datatype severity = Low | Medium | High | Critical

text \<open>
  Modelled from the spec: the name under which a finding carries its severity (\<section>3);
  missing from the sources.
\<close>

fun severity_name :: "severity \<Rightarrow> string" where
  "severity_name Low = ''Low''"
| "severity_name Medium = ''Medium''"
| "severity_name High = ''High''"
| "severity_name Critical = ''Critical''"

text \<open>
  Modelled from the spec: a correlation rule as data (\<section>6, missing from the sources): name,
  severity, description, the task outputs it refers to by name, and a predicate over
  their values.
\<close>

record 'v rule =
  r_name :: string
  r_severity :: severity
  r_description :: string
  r_inputs :: "task_name list"
  r_predicate :: "(task_name \<rightharpoonup> 'v) \<Rightarrow> bool"

text \<open>
  Modelled from the spec: the error of reading the value of a task that has none, which
  \<section>4.4 and \<section>7 require the engine never to raise; the engine is missing from the sources.
\<close>

datatype engine_error = MissingOutput task_name

text \<open>
  Modelled from the spec: reading a task output by name from the Run State (\<section>4.4),
  missing from the sources; only a Succeeded task has a value.
\<close>

definition read_output :: "'v run_state \<Rightarrow> task_name \<Rightarrow> engine_error + 'v" where
  "read_output s n = (case rs_outputs s n of Succeeded v \<Rightarrow> Inr v | _ \<Rightarrow> Inl (MissingOutput n))"

text \<open>
  Modelled from the spec: reading all the outputs that a rule refers to (\<section>4.4), missing
  from the sources; the first output without a value is the error.
\<close>

fun read_outputs :: "'v run_state \<Rightarrow> task_name list \<Rightarrow> engine_error + (task_name \<rightharpoonup> 'v)" where
  "read_outputs s [] = Inr Map.empty"
| "read_outputs s (n # ns) =
     (case read_output s n of
        Inl e \<Rightarrow> Inl e
      | Inr v \<Rightarrow> (case read_outputs s ns of Inl e \<Rightarrow> Inl e | Inr view \<Rightarrow> Inr (view(n \<mapsto> v))))"

text \<open>
  Modelled from the spec: the evaluation of one rule (\<section>4.4, missing from the sources). A
  rule that refers to an output which is not Succeeded is not triggered: the evidence
  is absent. Otherwise the predicate decides; a finding carries the name, severity and
  description of the rule and, as evidence, the names of the outputs that triggered it.
  The finding has the shape of the interface \<^verbatim>\<open>CrossWorkstreamFlag\<close> of the dashboard.
\<close>

definition evaluate_rule :: "'v run_state \<Rightarrow> 'v rule \<Rightarrow> engine_error + CrossWorkstreamFlag option" where
  "evaluate_rule s r =
     (if \<exists>n \<in> set (r_inputs r). \<not> is_Succeeded (rs_outputs s n) then Inr None
      else (case read_outputs s (r_inputs r) of
              Inl e \<Rightarrow> Inl e
            | Inr view \<Rightarrow>
                Inr (if r_predicate r view
                     then Some \<lparr>cf_rule_name = r_name r, cf_severity = severity_name (r_severity r),
                                cf_description = r_description r, cf_evidence = r_inputs r\<rparr>
                     else None)))"

text \<open>
  Modelled from the spec: the Correlation Engine (\<section>4.4, missing from the sources), which
  evaluates the rules in the order of their declaration.
\<close>

fun evaluate_rules :: "'v rule list \<Rightarrow> 'v run_state \<Rightarrow> engine_error + CrossWorkstreamFlag list" where
  "evaluate_rules [] s = Inr []"
| "evaluate_rules (r # rs) s =
     (case evaluate_rule s r of
        Inl e \<Rightarrow> Inl e
      | Inr found \<Rightarrow>
          (case evaluate_rules rs s of
             Inl e \<Rightarrow> Inl e
           | Inr findings \<Rightarrow> Inr (case found of None \<Rightarrow> findings | Some f \<Rightarrow> f # findings)))"

section \<open>Sample inputs\<close>

text \<open>
  Two inputs for the chart: one with a full income statement, one whose gross profit
  is negative, so that the gross-profit node is dropped and links lose an end; and one
  without revenue.
\<close>

definition kpis_full :: FinancialKPIs where
  "kpis_full = \<lparr>revenue = Some 1000, revenue_prior = None, revenue_yoy_change = None,
     net_income = Some 100, net_income_prior = None, gross_profit = Some 400, gross_margin = None,
     operating_income = Some 150, operating_margin = None, total_assets = None, total_liabilities = None,
     stockholders_equity = None, debt_to_equity = None, long_term_debt = None, cash_and_equivalents = None,
     current_ratio = None, operating_cash_flow = None, free_cash_flow = None, eps_basic = None,
     fiscal_year = 2024, period_end = ''2024-09-30'', currency = ''USD'', source_tags = [], anomalies = []\<rparr>"

definition kpis_negative_gross :: FinancialKPIs where
  "kpis_negative_gross = kpis_full\<lparr>gross_profit := Some (- 5)\<rparr>"

definition kpis_no_revenue :: FinancialKPIs where
  "kpis_no_revenue = kpis_full\<lparr>revenue := None\<rparr>"

























text \<open>
  The rule X of the scenario of \<section>8: task A has set its flag while task B reports a
  falling trend; a state in which both have succeeded, and one in which B was skipped.
\<close>

definition rule_X :: "string rule" where
  "rule_X = \<lparr>r_name = ''X'', r_severity = High, r_description = ''flag set while trend is down'',
     r_inputs = [''taskA'', ''taskB''],
     r_predicate = (\<lambda>view. view ''taskA'' = Some ''flag=true'' \<and> view ''taskB'' = Some ''trend=down'')\<rparr>"

definition state_both_succeeded :: "string run_state" where
  "state_both_succeeded =
     \<lparr>rs_subject = ''ACME'',
      rs_outputs = (\<lambda>_. Pending)(''taskA'' := Succeeded ''flag=true'', ''taskB'' := Succeeded ''trend=down''),
      rs_invoked = [''taskA'', ''taskB'']\<rparr>"

definition state_B_skipped :: "string run_state" where
  "state_B_skipped =
     \<lparr>rs_subject = ''ACME'',
      rs_outputs = (\<lambda>_. Pending)(''taskA'' := Succeeded ''flag=true'',
                                  ''taskB'' := Skipped ''upstream failure: ingest''),
      rs_invoked = [''taskA'']\<rparr>"

section \<open>Properties of the formatters\<close>








section \<open>Properties of the chart layout\<close>

lemma core_update_same:
  assumes "core n' = core (st ! i)"
  shows "map core (st[i := n']) = map core st"
proof (cases "i < length st")
  case True
  then show ?thesis using assms by (simp add: map_update list_update_same_conv)
next
  case False
  then have "st[i := n'] = st" by (simp add: list_update_beyond)
  then show ?thesis by simp
qed

lemma placeNodes_core:
  "map core (snd (placeNodes tv ah xp idxs y st)) = map core st"
proof (induction idxs arbitrary: y st)
  case Nil
  then show ?case by simp
next
  case (Cons i idxs)
  have "map core (st[i := (st ! i)\<lparr>n_h := h, n_x := xp, n_y := y\<rparr>]) = map core st" for h
    by (rule core_update_same) (simp add: core_def)
  then show ?case using Cons.IH by (simp add: Let_def)
qed

lemma shift_core:
  "map core (foldl (\<lambda>st i. st[i := (st ! i)\<lparr>n_y := n_y (st ! i) + off\<rparr>]) st col) = map core st"
proof (induction col arbitrary: st)
  case Nil
  then show ?case by simp
next
  case (Cons i col)
  have "map core (st[i := (st ! i)\<lparr>n_y := n_y (st ! i) + off\<rparr>]) = map core st"
    by (rule core_update_same) (simp add: core_def)
  then show ?case using Cons.IH by simp
qed

lemma positionColumn_core: "map core (positionColumn ci col st) = map core st"
proof -
  obtain y st1 where p: "placeNodes (foldl (\<lambda>a i. a + n_val (st ! i)) 0 col)
        (SVG_H - PAD_t - PAD_b - (of_nat (length col) - 1) * NODE_GAP)
        (PAD_l + (COL_POSITIONS ! ci) * (SVG_W - PAD_l - PAD_r - NODE_W)) col PAD_t st = (y, st1)"
    by (cases "placeNodes (foldl (\<lambda>a i. a + n_val (st ! i)) 0 col)
        (SVG_H - PAD_t - PAD_b - (of_nat (length col) - 1) * NODE_GAP)
        (PAD_l + (COL_POSITIONS ! ci) * (SVG_W - PAD_l - PAD_r - NODE_W)) col PAD_t st") 
  have "map core st1 = map core st" using placeNodes_core[of _ _ _ col PAD_t st] p
    by (metis snd_conv)
  then show ?thesis
    unfolding positionColumn_def Let_def p by (simp add: shift_core)
qed

lemma positionColumns_core:
  "map core (foldl (\<lambda>st (ci, col). positionColumn ci col st) st cs) = map core st"
  by (induction cs arbitrary: st) (auto simp: positionColumn_core)

lemma layoutLink_keeps:
  "layoutLink ns lds sn tn l so to = (ll, so1, to1) \<Longrightarrow> l_s ll = l_s l \<and> l_t ll = l_t l \<and> l_v ll = l_v l"
  by (auto simp: layoutLink_def Let_def)

lemma mapLinks_ok:
  assumes "\<forall>l \<in> set ls. nm (l_s l) \<noteq> None \<and> nm (l_t l) \<noteq> None"
  shows "\<exists>r. mapLinks ns nm lds ls so to = Inr r
            \<and> map (\<lambda>l. (l_s l, l_t l, l_v l)) r = map (\<lambda>l. (l_s l, l_t l, l_v l)) ls"
  using assms
proof (induction ls arbitrary: so to)
  case Nil
  then show ?case by simp
next
  case (Cons l ls)
  from Cons.prems obtain sn tn where st: "nm (l_s l) = Some sn" "nm (l_t l) = Some tn" by auto
  from Cons.prems have rest: "\<forall>l \<in> set ls. nm (l_s l) \<noteq> None \<and> nm (l_t l) \<noteq> None" by simp
  obtain ll so1 to1 where step: "layoutLink ns lds sn tn l so to = (ll, so1, to1)"
    by (cases "layoutLink ns lds sn tn l so to") auto
  from Cons.IH[OF rest, of so1 to1] obtain r where
    r: "mapLinks ns nm lds ls so1 to1 = Inr r"
       "map (\<lambda>l. (l_s l, l_t l, l_v l)) r = map (\<lambda>l. (l_s l, l_t l, l_v l)) ls" by blast
  show ?case using st step r layoutLink_keeps[OF step] by simp
qed


lemma layoutOf_ok:
  assumes nd: "\<forall>n \<in> set nodeDefs. 0 < n_val n" and ld: "\<forall>l \<in> set linkDefs. 0 < l_v l"
  shows "\<exists>L. layoutOf ns nodeDefs linkDefs rv gm om nmg = Inr L
      \<and> lo_revenue L = rv
      \<and> map fst (lo_nm L) = map n_id nodeDefs
      \<and> (\<forall>(i, n) \<in> set (lo_nm L). n_id n = i \<and> 0 < n_val n)
      \<and> (\<forall>col \<in> set (lo_cols L). \<forall>n \<in> set col. 0 < n_val n)
      \<and> (\<forall>l \<in> set (lo_layoutLinks L). 0 < l_v l
            \<and> map_of (lo_nm L) (l_s l) \<noteq> None \<and> map_of (lo_nm L) (l_t l) \<noteq> None)"
proof -
  define store0 where "store0 = map (\<lambda>n. \<lparr>n_id = n_id n, n_label = n_label n, n_col = n_col n, n_type = n_type n,
                                n_val = n_val n, n_x = 0, n_y = 0, n_w = NODE_W, n_h = 0,
                                n_color = TYPE_COLOR (n_type n)\<rparr>) nodeDefs"
  define colIdx where "colIdx = map (\<lambda>ci. filter (\<lambda>i. n_col (store0 ! i) = ci) [0 ..< length store0]) [0, 1, 2, 3::nat]"
  define store where "store = foldl (\<lambda>st (ci, col). positionColumn ci col st) store0 (zip [0, 1, 2, 3] colIdx)"
  define nm where "nm = zip (map n_id nodeDefs) store"
  define cols where "cols = map (map (\<lambda>i. store ! i)) colIdx"
  define kept where "kept = filter (\<lambda>l. map_of nm (l_s l) \<noteq> None \<and> map_of nm (l_t l) \<noteq> None) linkDefs"
  have core0: "map core store0 = map (\<lambda>n. (n_id n, n_col n, n_val n)) nodeDefs"
    by (simp add: store0_def core_def)
  have cs: "map core store = map (\<lambda>n. (n_id n, n_col n, n_val n)) nodeDefs"
    unfolding store_def using positionColumns_core core0 by simp
  have len: "length store = length nodeDefs" "length store0 = length nodeDefs"
    using cs core0 by (metis length_map)+
  have store_pos: "0 < n_val n" if "n \<in> set store" for n
  proof -
    from that have "core n \<in> set (map core store)" by simp
    then obtain d where "d \<in> set nodeDefs" "core n = (n_id d, n_col d, n_val d)" using cs by auto
    then show ?thesis using nd by (auto simp: core_def)
  qed
  have nm_id: "n_id n = i" if "(i, n) \<in> set nm" for i n
  proof -
    from that obtain k where k: "k < length nodeDefs" "i = n_id (nodeDefs ! k)" "n = store ! k"
      using len by (auto simp: nm_def set_zip)
    have "core (store ! k) = (map core store) ! k" using k len by simp
    also have "\<dots> = (n_id (nodeDefs ! k), n_col (nodeDefs ! k), n_val (nodeDefs ! k))"
      using k by (simp add: cs)
    finally show ?thesis using k by (simp add: core_def)
  qed
  have nm_in: "n \<in> set store" if "(i, n) \<in> set nm" for i n
    using that by (auto simp: nm_def dest: set_zip_rightD)
  have cols_in: "n \<in> set store" if "col \<in> set cols" "n \<in> set col" for col n
    using that len by (auto simp: cols_def colIdx_def)
  obtain r where r: "mapLinks ns (map_of nm) linkDefs kept Map.empty Map.empty = Inr r"
      "map (\<lambda>l. (l_s l, l_t l, l_v l)) r = map (\<lambda>l. (l_s l, l_t l, l_v l)) kept"
    using mapLinks_ok[of kept "map_of nm" ns linkDefs Map.empty Map.empty] by (auto simp: kept_def)
  have links: "0 < l_v l \<and> map_of nm (l_s l) \<noteq> None \<and> map_of nm (l_t l) \<noteq> None" if "l \<in> set r" for l
  proof -
    from that have "(l_s l, l_t l, l_v l) \<in> set (map (\<lambda>l. (l_s l, l_t l, l_v l)) r)" by force
    then obtain k where "k \<in> set kept" "l_s k = l_s l" "l_t k = l_t l" "l_v k = l_v l"
      unfolding r(2) by auto
    then show ?thesis using ld by (auto simp: kept_def)
  qed
  have eq: "layoutOf ns nodeDefs linkDefs rv gm om nmg =
      Inr \<lparr>lo_nm = nm, lo_cols = cols, lo_layoutLinks = r, lo_revenue = rv,
           lo_grossMargin = gm, lo_operatingMargin = om, lo_netMargin = nmg\<rparr>"
    unfolding layoutOf_def Let_def
    unfolding store0_def[symmetric] colIdx_def[symmetric] store_def[symmetric] nm_def[symmetric] cols_def[symmetric] kept_def[symmetric]
    by (simp add: r(1))
  have fst_nm: "map fst nm = map n_id nodeDefs" using len by (simp add: nm_def)
  show ?thesis
    unfolding eq using store_pos nm_id nm_in cols_in links fst_nm by auto
qed

text \<open>
  Claim C9. For every \<^verbatim>\<open>FinancialKPIs\<close>, \<^verbatim>\<open>computeLayout\<close> returns a layout
  (it does not throw) in which every node, in the node map and in the columns, has a
  strictly positive value, and every link that is laid out has a strictly positive value
  and both its source and its target in the node map.
\<close>

theorem computeLayout_nodes_positive_links_closed:
  "\<exists>L. computeLayout numToString kpis = Inr L
      \<and> (\<forall>(i, n) \<in> set (lo_nm L). n_id n = i \<and> 0 < n_val n)
      \<and> (\<forall>col \<in> set (lo_cols L). \<forall>n \<in> set col. 0 < n_val n)
      \<and> (\<forall>l \<in> set (lo_layoutLinks L). 0 < l_v l
            \<and> map_of (lo_nm L) (l_s l) \<noteq> None \<and> map_of (lo_nm L) (l_t l) \<noteq> None)"
proof -
  have gen: "\<exists>L. layoutOf numToString (filter (\<lambda>n. 0 < n_val n) xs) (filter (\<lambda>l. 0 < l_v l) ys) rv gm om nmg = Inr L
      \<and> (\<forall>(i, n) \<in> set (lo_nm L). n_id n = i \<and> 0 < n_val n)
      \<and> (\<forall>col \<in> set (lo_cols L). \<forall>n \<in> set col. 0 < n_val n)
      \<and> (\<forall>l \<in> set (lo_layoutLinks L). 0 < l_v l
            \<and> map_of (lo_nm L) (l_s l) \<noteq> None \<and> map_of (lo_nm L) (l_t l) \<noteq> None)"
    for xs ys rv gm om nmg
  proof -
    have a: "\<forall>n \<in> set (filter (\<lambda>n. 0 < n_val n) xs). 0 < n_val n" by simp
    have b: "\<forall>l \<in> set (filter (\<lambda>l. 0 < l_v l) ys). 0 < l_v l" by simp
    from layoutOf_ok[OF a b, of numToString rv gm om nmg] show ?thesis by blast
  qed
  show ?thesis unfolding computeLayout_def Let_def by (rule gen)
qed

text \<open>
  Claim C9 at an income statement with a negative gross profit: the gross-profit node is
  dropped, and with it the links that start or end there.
\<close>

theorem computeLayout_nodes_positive_links_closed_witness:
  "\<exists>L. computeLayout (\<lambda>_. ''0'') kpis_negative_gross = Inr L
     \<and> map fst (lo_nm L) = [''revenue'', ''cogs'', ''op_income'', ''net_income'', ''tax_other'']
     \<and> map (\<lambda>l. (l_s l, l_t l)) (lo_layoutLinks L)
         = [(''revenue'', ''cogs''), (''op_income'', ''net_income''), (''op_income'', ''tax_other'')]
     \<and> (\<forall>(i, n) \<in> set (lo_nm L). n_id n = i \<and> 0 < n_val n)
     \<and> (\<forall>col \<in> set (lo_cols L). \<forall>n \<in> set col. 0 < n_val n)
     \<and> (\<forall>l \<in> set (lo_layoutLinks L). 0 < l_v l
            \<and> map_of (lo_nm L) (l_s l) \<noteq> None \<and> map_of (lo_nm L) (l_t l) \<noteq> None)"
proof -
  have ev: "case computeLayout (\<lambda>_. ''0'') kpis_negative_gross of
              Inl _ \<Rightarrow> False
            | Inr L \<Rightarrow> map fst (lo_nm L) = [''revenue'', ''cogs'', ''op_income'', ''net_income'', ''tax_other'']
                 \<and> map (\<lambda>l. (l_s l, l_t l)) (lo_layoutLinks L)
                     = [(''revenue'', ''cogs''), (''op_income'', ''net_income''), (''op_income'', ''tax_other'')]"
    by code_simp
  from computeLayout_nodes_positive_links_closed[of "\<lambda>_. ''0''" kpis_negative_gross]
  obtain L where L: "computeLayout (\<lambda>_. ''0'') kpis_negative_gross = Inr L"
     "\<forall>(i, n) \<in> set (lo_nm L). n_id n = i \<and> 0 < n_val n"
     "\<forall>col \<in> set (lo_cols L). \<forall>n \<in> set col. 0 < n_val n"
     "\<forall>l \<in> set (lo_layoutLinks L). 0 < l_v l
            \<and> map_of (lo_nm L) (l_s l) \<noteq> None \<and> map_of (lo_nm L) (l_t l) \<noteq> None"
    by blast
  from ev L(1) have "map fst (lo_nm L) = [''revenue'', ''cogs'', ''op_income'', ''net_income'', ''tax_other'']"
     "map (\<lambda>l. (l_s l, l_t l)) (lo_layoutLinks L)
         = [(''revenue'', ''cogs''), (''op_income'', ''net_income''), (''op_income'', ''tax_other'')]"
    by simp_all
  note facts = L this
  show ?thesis by (rule exI[of _ L]) (intro conjI facts)
qed

section \<open>Properties of the chart component\<close>

lemma computeLayout_returns: "\<exists>L. computeLayout numToString kpis = Inr L"
proof -
  have gen: "\<exists>L. layoutOf numToString (filter (\<lambda>n. 0 < n_val n) xs) (filter (\<lambda>l. 0 < l_v l) ys) rv gm om nmg = Inr L"
    for xs ys rv gm om nmg
  proof -
    have a: "\<forall>n \<in> set (filter (\<lambda>n. 0 < n_val n) xs). 0 < n_val n" by simp
    have b: "\<forall>l \<in> set (filter (\<lambda>l. 0 < l_v l) ys). 0 < l_v l" by simp
    from layoutOf_ok[OF a b, of numToString rv gm om nmg] show ?thesis by blast
  qed
  show ?thesis unfolding computeLayout_def Let_def by (rule gen)
qed

text \<open>
  Claim C8. When the revenue of the \<^verbatim>\<open>FinancialKPIs\<close> is null or not strictly
  positive, \<^verbatim>\<open>IncomeFlowSankey\<close> returns the placeholder "Revenue data not
  available for income flow chart." and has not called \<^verbatim>\<open>computeLayout\<close>. When
  it renders a chart, the revenue that every share divides by (under the nodes, in the two
  tooltips and in the COGS annotation) is the revenue of the input and is strictly
  positive; a strictly positive revenue always gives a chart, after one call of
  \<^verbatim>\<open>computeLayout\<close>.
\<close>

theorem IncomeFlowSankey_revenue_guard:
  "((revenue kpis = None \<or> (\<exists>r. revenue kpis = Some r \<and> r \<le> 0)) \<longrightarrow>
      IncomeFlowSankey numToString toLocaleString kpis
        = ([], Inr (Placeholder ''Revenue data not available for income flow chart.'')))
   \<and> ((\<exists>r. revenue kpis = Some r \<and> 0 < r) \<longrightarrow>
        (\<exists>c. IncomeFlowSankey numToString toLocaleString kpis = ([kpis], Inr (Chart c))))
   \<and> (\<forall>c. snd (IncomeFlowSankey numToString toLocaleString kpis) = Inr (Chart c) \<longrightarrow>
        0 < ch_revenue c \<and> revenue kpis = Some (ch_revenue c)
        \<and> nullish (revenue kpis) 1 = ch_revenue c
        \<and> computeLayout numToString kpis = Inr (ch_layout c)
        \<and> ch_linkTooltips c
            = map (\<lambda>l. linkTooltipHtml numToString toLocaleString (ch_layout c) (ch_revenue c) l)
                (lo_layoutLinks (ch_layout c))
        \<and> ch_nodeTooltips c
            = map (\<lambda>n. (n_id n, nodeTooltipHtml numToString toLocaleString (ch_layout c) (ch_revenue c) n))
                (map snd (lo_nm (ch_layout c)))
        \<and> ch_nodePct c
            = map (\<lambda>n. (n_id n, fmtPct numToString (n_val n / ch_revenue c)))
                (filter (\<lambda>n. n_col n \<ge> 1) (map snd (lo_nm (ch_layout c)))))"
proof (intro conjI allI impI)
  assume "revenue kpis = None \<or> (\<exists>r. revenue kpis = Some r \<and> r \<le> 0)"
  then have "nullish (revenue kpis) 0 \<le> 0" by auto
  then show "IncomeFlowSankey numToString toLocaleString kpis
        = ([], Inr (Placeholder ''Revenue data not available for income flow chart.''))"
    by (simp add: IncomeFlowSankey_def)
next
  assume "\<exists>r. revenue kpis = Some r \<and> 0 < r"
  then have pos: "\<not> nullish (revenue kpis) 0 \<le> 0" by auto
  obtain L where L: "computeLayout numToString kpis = Inr L"
    using computeLayout_returns by blast
  show "\<exists>c. IncomeFlowSankey numToString toLocaleString kpis = ([kpis], Inr (Chart c))"
    using pos L by (simp add: IncomeFlowSankey_def Let_def)
next
  fix c
  assume c: "snd (IncomeFlowSankey numToString toLocaleString kpis) = Inr (Chart c)"
  have pos: "\<not> nullish (revenue kpis) 0 \<le> 0"
  proof
    assume "nullish (revenue kpis) 0 \<le> 0"
    then have "snd (IncomeFlowSankey numToString toLocaleString kpis)
       = Inr (Placeholder ''Revenue data not available for income flow chart.'')"
      by (simp add: IncomeFlowSankey_def)
    with c show False by simp
  qed
  obtain L where L: "computeLayout numToString kpis = Inr L"
    using computeLayout_returns by blast
  obtain r where r: "revenue kpis = Some r" "0 < r"
    using pos by (cases "revenue kpis") auto
  have ceq: "c = \<lparr>ch_layout = L,
                    ch_revenue = r,
                    ch_nodePct = map (\<lambda>n. (n_id n, fmtPct numToString (n_val n / r)))
                                   (filter (\<lambda>n. n_col n \<ge> 1) (map snd (lo_nm L))),
                    ch_nodeTooltips = map (\<lambda>n. (n_id n, nodeTooltipHtml numToString toLocaleString L r n))
                                        (map snd (lo_nm L)),
                    ch_linkTooltips = map (linkTooltipHtml numToString toLocaleString L r) (lo_layoutLinks L),
                    ch_cogs = (case (map_of (lo_nm L) ''revenue'', map_of (lo_nm L) ''cogs'') of
                                 (Some rv, Some cogs) \<Rightarrow>
                                   Some (fmtPct numToString
                                          (if nullish (revenue kpis) 0 > 0
                                           then n_val cogs / nullish (revenue kpis) 1 else 0) @ '' COGS'')
                               | _ \<Rightarrow> None)\<rparr>"
    using c pos L r by (auto simp add: IncomeFlowSankey_def Let_def)
  show "0 < ch_revenue c" using r by (simp add: ceq)
  show "revenue kpis = Some (ch_revenue c)" using r by (simp add: ceq)
  show "nullish (revenue kpis) 1 = ch_revenue c" using r by (simp add: ceq)
  show "computeLayout numToString kpis = Inr (ch_layout c)" using L by (simp add: ceq)
  show "ch_linkTooltips c
            = map (\<lambda>l. linkTooltipHtml numToString toLocaleString (ch_layout c) (ch_revenue c) l)
                (lo_layoutLinks (ch_layout c))" by (simp add: ceq)
  show "ch_nodeTooltips c
            = map (\<lambda>n. (n_id n, nodeTooltipHtml numToString toLocaleString (ch_layout c) (ch_revenue c) n))
                (map snd (lo_nm (ch_layout c)))" by (simp add: ceq)
  show "ch_nodePct c
            = map (\<lambda>n. (n_id n, fmtPct numToString (n_val n / ch_revenue c)))
                (filter (\<lambda>n. n_col n \<ge> 1) (map snd (lo_nm (ch_layout c))))" by (simp add: ceq)
qed

text \<open>Claim C8 at an input without revenue and at one with revenue 1000.\<close>

theorem IncomeFlowSankey_revenue_guard_witness:
  "IncomeFlowSankey (\<lambda>_. ''0'') (\<lambda>_. ''0'') kpis_no_revenue
        = ([], Inr (Placeholder ''Revenue data not available for income flow chart.''))
   \<and> (\<exists>c. IncomeFlowSankey (\<lambda>_. ''0'') (\<lambda>_. ''0'') kpis_full = ([kpis_full], Inr (Chart c))
         \<and> ch_revenue c = 1000 \<and> 0 < ch_revenue c)"
proof -
  have a: "revenue kpis_no_revenue = None \<or> (\<exists>r. revenue kpis_no_revenue = Some r \<and> r \<le> 0)"
    by (simp add: kpis_no_revenue_def kpis_full_def)
  have b: "\<exists>r. revenue kpis_full = Some r \<and> 0 < r"
    by (simp add: kpis_full_def)
  note g = IncomeFlowSankey_revenue_guard[of kpis_no_revenue "\<lambda>_. ''0''" "\<lambda>_. ''0''"]
  have p: "IncomeFlowSankey (\<lambda>_. ''0'') (\<lambda>_. ''0'') kpis_no_revenue
        = ([], Inr (Placeholder ''Revenue data not available for income flow chart.''))"
    by (rule g[THEN conjunct1, THEN mp, OF a])
  note h = IncomeFlowSankey_revenue_guard[of kpis_full "\<lambda>_. ''0''" "\<lambda>_. ''0''"]
  from h[THEN conjunct2, THEN conjunct1, THEN mp, OF b]
  obtain c where c: "IncomeFlowSankey (\<lambda>_. ''0'') (\<lambda>_. ''0'') kpis_full = ([kpis_full], Inr (Chart c))" ..
  then have s: "snd (IncomeFlowSankey (\<lambda>_. ''0'') (\<lambda>_. ''0'') kpis_full) = Inr (Chart c)" by simp
  note k = h[THEN conjunct2, THEN conjunct2, rule_format, OF s]
  have "0 < ch_revenue c" by (rule k[THEN conjunct1])
  moreover have "revenue kpis_full = Some (ch_revenue c)" by (rule k[THEN conjunct2, THEN conjunct1])
  then have "ch_revenue c = 1000" by (simp add: kpis_full_def)
  ultimately show ?thesis using c p by (intro conjI exI[of _ c])
qed

section \<open>Properties of the progress events and the results\<close>









section \<open>Properties of the scheduler\<close>


















































section \<open>Properties of the correlation engine\<close>

lemma read_outputs_ok:
  assumes "\<forall>n \<in> set ns. is_Succeeded (rs_outputs s n)"
  shows "\<exists>view. read_outputs s ns = Inr view"
  using assms
proof (induction ns)
  case Nil
  then show ?case by simp
next
  case (Cons n ns)
  then obtain view where v: "read_outputs s ns = Inr view" by auto
  from Cons.prems obtain x where "rs_outputs s n = Succeeded x"
    by (cases "rs_outputs s n") auto
  then show ?case using v by (simp add: read_output_def)
qed

lemma evaluate_rule_total: "\<exists>found. evaluate_rule s r = Inr found"
proof (cases "\<exists>n \<in> set (r_inputs r). \<not> is_Succeeded (rs_outputs s n)")
  case True
  then show ?thesis by (simp add: evaluate_rule_def)
next
  case False
  then have "\<forall>n \<in> set (r_inputs r). is_Succeeded (rs_outputs s n)" by simp
  from read_outputs_ok[OF this] obtain view where "read_outputs s (r_inputs r) = Inr view" by blast
  then show ?thesis using False by (simp add: evaluate_rule_def)
qed

lemma evaluate_rules_total: "\<exists>findings. evaluate_rules rules s = Inr findings"
proof (induction rules)
  case Nil
  then show ?case by simp
next
  case (Cons r rules)
  from evaluate_rule_total[of s r] obtain found where "evaluate_rule s r = Inr found" by blast
  with Cons show ?case by auto
qed

lemma evaluate_rule_SomeD:
  assumes "evaluate_rule s r = Inr (Some f)"
  shows "cf_rule_name f = r_name r \<and> cf_severity f = severity_name (r_severity r)
       \<and> cf_description f = r_description r \<and> cf_evidence f = r_inputs r
       \<and> (\<forall>n \<in> set (r_inputs r). is_Succeeded (rs_outputs s n))
       \<and> (\<exists>view. read_outputs s (r_inputs r) = Inr view \<and> r_predicate r view)"
  using assms by (auto simp: evaluate_rule_def split: if_splits sum.splits)

lemma evaluate_rules_findings:
  assumes "evaluate_rules rules s = Inr findings" "f \<in> set findings"
  shows "\<exists>r \<in> set rules. evaluate_rule s r = Inr (Some f)"
  using assms
proof (induction rules arbitrary: findings)
  case Nil
  then show ?case by simp
next
  case (Cons r rules)
  from Cons.prems(1) obtain found rest where e: "evaluate_rule s r = Inr found"
      "evaluate_rules rules s = Inr rest" "findings = (case found of None \<Rightarrow> rest | Some f \<Rightarrow> f # rest)"
    by (auto split: sum.splits)
  show ?case
  proof (cases "f \<in> set rest")
    case True
    with Cons.IH[OF e(2)] show ?thesis by auto
  next
    case False
    with Cons.prems(2) e(3) have "found = Some f" by (cases found) auto
    with e(1) show ?thesis by simp
  qed
qed

lemma severity_name_enum: "severity_name v \<in> set [''Low'', ''Medium'', ''High'', ''Critical'']"
  by (cases v) simp_all

text \<open>
  Claim C4. Every finding that the Correlation Engine produces carries the name and the
  description of a rule of the list, the severity of that rule, which is one of Low,
  Medium, High and Critical, and as evidence the outputs that the rule refers to, each of
  which is a Succeeded output of the Run State on which the predicate of the rule holds.
\<close>

theorem findings_carry_rule_and_evidence:
  assumes "evaluate_rules rules s = Inr findings"
  shows "\<forall>f \<in> set findings.
           \<exists>r \<in> set rules.
             cf_rule_name f = r_name r
             \<and> cf_severity f = severity_name (r_severity r)
             \<and> cf_severity f \<in> set [''Low'', ''Medium'', ''High'', ''Critical'']
             \<and> cf_description f = r_description r
             \<and> cf_evidence f = r_inputs r
             \<and> (\<forall>n \<in> set (cf_evidence f). is_Succeeded (rs_outputs s n))
             \<and> (\<exists>view. read_outputs s (r_inputs r) = Inr view \<and> r_predicate r view)"
proof
  fix f assume "f \<in> set findings"
  from evaluate_rules_findings[OF assms this] obtain r where r: "r \<in> set rules" "evaluate_rule s r = Inr (Some f)"
    by blast
  note d = evaluate_rule_SomeD[OF r(2)]
  have "cf_severity f \<in> set [''Low'', ''Medium'', ''High'', ''Critical'']"
    using d severity_name_enum[of "r_severity r"] by simp
  with d r(1) show "\<exists>r \<in> set rules.
             cf_rule_name f = r_name r
             \<and> cf_severity f = severity_name (r_severity r)
             \<and> cf_severity f \<in> set [''Low'', ''Medium'', ''High'', ''Critical'']
             \<and> cf_description f = r_description r
             \<and> cf_evidence f = r_inputs r
             \<and> (\<forall>n \<in> set (cf_evidence f). is_Succeeded (rs_outputs s n))
             \<and> (\<exists>view. read_outputs s (r_inputs r) = Inr view \<and> r_predicate r view)"
    by (intro bexI[of _ r]) simp_all
qed

lemma rule_X_triggers:
  "evaluate_rules [rule_X] state_both_succeeded
     = Inr [\<lparr>cf_rule_name = ''X'', cf_severity = ''High'', cf_description = ''flag set while trend is down'',
             cf_evidence = [''taskA'', ''taskB'']\<rparr>]"
  by (simp add: evaluate_rule_def rule_X_def state_both_succeeded_def read_output_def)

text \<open>
  Claim C4 at rule X and a state in which both of its tasks have succeeded.
\<close>

theorem findings_carry_rule_and_evidence_witness:
  "evaluate_rules [rule_X] state_both_succeeded
     = Inr [\<lparr>cf_rule_name = ''X'', cf_severity = ''High'', cf_description = ''flag set while trend is down'',
             cf_evidence = [''taskA'', ''taskB'']\<rparr>]
   \<and> ''High'' \<in> set [''Low'', ''Medium'', ''High'', ''Critical'']
   \<and> is_Succeeded (rs_outputs state_both_succeeded ''taskA'')
   \<and> is_Succeeded (rs_outputs state_both_succeeded ''taskB'')"
proof -
  let ?F = "\<lparr>cf_rule_name = ''X'', cf_severity = ''High'', cf_description = ''flag set while trend is down'',
             cf_evidence = [''taskA'', ''taskB'']\<rparr>"
  note t = findings_carry_rule_and_evidence[OF rule_X_triggers]
  have f: "?F \<in> set [?F]" by simp
  from bspec[OF t f]
  have k: "cf_severity ?F \<in> set [''Low'', ''Medium'', ''High'', ''Critical'']
         \<and> (\<forall>n \<in> set (cf_evidence ?F). is_Succeeded (rs_outputs state_both_succeeded n))"
    by (elim bexE conjE) (intro conjI; assumption)
  from k[THEN conjunct1] have a: "''High'' \<in> set [''Low'', ''Medium'', ''High'', ''Critical'']"
    by simp
  from k[THEN conjunct2] have b: "is_Succeeded (rs_outputs state_both_succeeded ''taskA'')
      \<and> is_Succeeded (rs_outputs state_both_succeeded ''taskB'')"
    by simp
  show ?thesis using rule_X_triggers a b by (intro conjI) simp_all
qed

text \<open>
  Claim C7. For every Run State and every rule: if the rule refers to a task output that is
  Failed or Skipped, evaluating the rule yields no finding; evaluating a rule, or a list
  of rules, never raises an error; and no finding of the engine comes from a rule with a
  Failed or Skipped input.
\<close>

theorem missing_input_disqualifies_rule:
  "(n \<in> set (r_inputs r) \<and> (is_Failed (rs_outputs s n) \<or> is_Skipped (rs_outputs s n))
      \<longrightarrow> evaluate_rule s r = Inr None)
   \<and> (\<exists>found. evaluate_rule s r = Inr found)
   \<and> (\<exists>findings. evaluate_rules rules s = Inr findings)
   \<and> (\<forall>findings. evaluate_rules rules s = Inr findings
         \<longrightarrow> (\<forall>f \<in> set findings. \<exists>r' \<in> set rules. evaluate_rule s r' = Inr (Some f)
               \<and> (\<forall>m \<in> set (r_inputs r'). \<not> is_Failed (rs_outputs s m) \<and> \<not> is_Skipped (rs_outputs s m))))"
proof (intro conjI allI impI)
  assume a: "n \<in> set (r_inputs r) \<and> (is_Failed (rs_outputs s n) \<or> is_Skipped (rs_outputs s n))"
  then have "\<not> is_Succeeded (rs_outputs s n)" by (cases "rs_outputs s n") auto
  with a have "\<exists>n \<in> set (r_inputs r). \<not> is_Succeeded (rs_outputs s n)" by blast
  then show "evaluate_rule s r = Inr None" by (simp add: evaluate_rule_def)
next
  show "\<exists>found. evaluate_rule s r = Inr found" by (rule evaluate_rule_total)
  show "\<exists>findings. evaluate_rules rules s = Inr findings" by (rule evaluate_rules_total)
next
  fix findings
  assume a: "evaluate_rules rules s = Inr findings"
  show "\<forall>f \<in> set findings. \<exists>r' \<in> set rules. evaluate_rule s r' = Inr (Some f)
               \<and> (\<forall>m \<in> set (r_inputs r'). \<not> is_Failed (rs_outputs s m) \<and> \<not> is_Skipped (rs_outputs s m))"
  proof
    fix f assume "f \<in> set findings"
    from evaluate_rules_findings[OF a this] obtain r' where
      r': "r' \<in> set rules" "evaluate_rule s r' = Inr (Some f)" by blast
    from evaluate_rule_SomeD[OF r'(2)] have ok: "\<forall>m \<in> set (r_inputs r'). is_Succeeded (rs_outputs s m)"
      by blast
    have "\<not> is_Failed (rs_outputs s m) \<and> \<not> is_Skipped (rs_outputs s m)" if "m \<in> set (r_inputs r')" for m
      using ok that by (cases "rs_outputs s m") auto
    with r' show "\<exists>r' \<in> set rules. evaluate_rule s r' = Inr (Some f)
               \<and> (\<forall>m \<in> set (r_inputs r'). \<not> is_Failed (rs_outputs s m) \<and> \<not> is_Skipped (rs_outputs s m))"
      by blast
  qed
qed

text \<open>
  Claim C7 at rule X and a state in which task B was skipped.
\<close>

theorem missing_input_disqualifies_rule_witness:
  "''taskB'' \<in> set (r_inputs rule_X)
   \<and> is_Skipped (rs_outputs state_B_skipped ''taskB'')
   \<and> evaluate_rule state_B_skipped rule_X = Inr None
   \<and> evaluate_rules [rule_X] state_B_skipped = Inr []"
proof -
  note t = missing_input_disqualifies_rule[where n = "''taskB''" and r = rule_X and s = state_B_skipped
      and rules = "[rule_X]"]
  have i: "''taskB'' \<in> set (r_inputs rule_X)" by (simp add: rule_X_def)
  have k: "is_Skipped (rs_outputs state_B_skipped ''taskB'')" by (simp add: state_B_skipped_def)
  have n: "evaluate_rule state_B_skipped rule_X = Inr None"
    using t[THEN conjunct1] i k by simp
  then have e: "evaluate_rules [rule_X] state_B_skipped = Inr []" by simp
  show ?thesis using i k n e by (intro conjI)
qed

end
